theory Spec2Isabelle
  imports Complex_Main "HOL-Library.AList" "HOL-Library.Char_ord" "HOL-Library.List_Lexorder"
begin

section \<open>Floating-point cells\<close>

text \<open>
  Every numeric cell of the tracker is a Python / numpy float. A cell is modelled as a
  finite real number or one of the three special values that IEEE arithmetic produces:
  the two infinities and NaN. Finite arithmetic is exact here (the rounded binary64
  addition is defined further down, for the sums whose rounding matters), and the sign
  of a zero is not tracked: a zero divisor is taken to be \<open>+0.0\<close>.
  Division never raises, as in numpy: \<open>x / 0\<close> is an infinity and \<open>0 / 0\<close> is NaN.
\<close>

datatype pyfloat = Fin real | PInf | NInf | NaN

fun is_finite :: "pyfloat \<Rightarrow> bool" where
  "is_finite (Fin a) = True"
| "is_finite PInf = False"
| "is_finite NInf = False"
| "is_finite NaN = False"

fun fneg :: "pyfloat \<Rightarrow> pyfloat" where
  "fneg (Fin a) = Fin (- a)"
| "fneg PInf = NInf"
| "fneg NInf = PInf"
| "fneg NaN = NaN"

fun fadd :: "pyfloat \<Rightarrow> pyfloat \<Rightarrow> pyfloat" where
  "fadd NaN y = NaN"
| "fadd (Fin a) NaN = NaN"
| "fadd PInf NaN = NaN"
| "fadd NInf NaN = NaN"
| "fadd (Fin a) (Fin b) = Fin (a + b)"
| "fadd (Fin a) PInf = PInf"
| "fadd (Fin a) NInf = NInf"
| "fadd PInf (Fin b) = PInf"
| "fadd PInf PInf = PInf"
| "fadd PInf NInf = NaN"
| "fadd NInf (Fin b) = NInf"
| "fadd NInf NInf = NInf"
| "fadd NInf PInf = NaN"

definition fsub :: "pyfloat \<Rightarrow> pyfloat \<Rightarrow> pyfloat" where
  "fsub x y = fadd x (fneg y)"

definition signed_inf :: "bool \<Rightarrow> pyfloat" where
  "signed_inf positive = (if positive then PInf else NInf)"

fun fmul :: "pyfloat \<Rightarrow> pyfloat \<Rightarrow> pyfloat" where
  "fmul NaN y = NaN"
| "fmul (Fin a) NaN = NaN"
| "fmul PInf NaN = NaN"
| "fmul NInf NaN = NaN"
| "fmul (Fin a) (Fin b) = Fin (a * b)"
| "fmul (Fin a) PInf = (if a = 0 then NaN else signed_inf (0 < a))"
| "fmul (Fin a) NInf = (if a = 0 then NaN else signed_inf (a < 0))"
| "fmul PInf (Fin b) = (if b = 0 then NaN else signed_inf (0 < b))"
| "fmul NInf (Fin b) = (if b = 0 then NaN else signed_inf (b < 0))"
| "fmul PInf PInf = PInf"
| "fmul PInf NInf = NInf"
| "fmul NInf PInf = NInf"
| "fmul NInf NInf = PInf"

fun fdiv :: "pyfloat \<Rightarrow> pyfloat \<Rightarrow> pyfloat" where
  "fdiv NaN y = NaN"
| "fdiv (Fin a) NaN = NaN"
| "fdiv PInf NaN = NaN"
| "fdiv NInf NaN = NaN"
| "fdiv (Fin a) (Fin b) =
     (if b = 0 then (if a = 0 then NaN else signed_inf (0 < a)) else Fin (a / b))"
| "fdiv (Fin a) PInf = Fin 0"
| "fdiv (Fin a) NInf = Fin 0"
| "fdiv PInf (Fin b) = signed_inf (0 \<le> b)"
| "fdiv NInf (Fin b) = signed_inf (b < 0)"
| "fdiv PInf PInf = NaN"
| "fdiv PInf NInf = NaN"
| "fdiv NInf PInf = NaN"
| "fdiv NInf NInf = NaN"

text \<open>\<open>Series.fillna(0)\<close> replaces NaN only; an infinity stays.\<close>

definition fillna0 :: "pyfloat \<Rightarrow> pyfloat" where
  "fillna0 x = (if x = NaN then Fin 0 else x)"

text \<open>\<open>Series.sum()\<close> skips NaN cells (\<open>skipna=True\<close>); the sum of no cell is 0.\<close>

definition col_sum :: "pyfloat list \<Rightarrow> pyfloat" where
  "col_sum xs = foldl fadd (Fin 0) (filter (\<lambda>x. x \<noteq> NaN) xs)"

text \<open>Truthiness of a float in \<open>x if x else 1\<close>: only zero is false (NaN is true).\<close>

definition truthy :: "pyfloat \<Rightarrow> bool" where
  "truthy x = (x \<noteq> Fin 0)"

section \<open>Strings\<close>

text \<open>\<open>str.upper()\<close> on the ASCII letters; every other character is kept.\<close>

definition upper_char :: "char \<Rightarrow> char" where
  "upper_char c =
     (if CHR ''a'' \<le> c \<and> c \<le> CHR ''z'' then char_of (of_char c - (32::nat)) else c)"

definition upper :: "string \<Rightarrow> string" where
  "upper s = map upper_char s"

section \<open>Tables\<close>

text \<open>A row of the \<open>positions\<close> table (the schema of both programs).\<close>

record position =
  pos_id :: int
  symbol :: string
  shares :: pyfloat
  cost_per_share :: pyfloat
  trade_date :: string
  pos_note :: "string option"

text \<open>
  A data frame is the list of its rows. The frame after the price join carries the
  position's columns and \<open>current_price\<close>; the metric columns extend it.
\<close>

record priced =
  pos :: position
  current_price :: pyfloat

record vrow = priced +
  current_value :: pyfloat
  cost_basis :: pyfloat
  pnl_abs :: pyfloat
  pnl_pct :: pyfloat

text \<open>\<open>Series.unique()\<close>: the distinct values in order of first appearance.\<close>

fun unique :: "'a list \<Rightarrow> 'a list" where
  "unique [] = []"
| "unique (x # xs) = x # unique (removeAll x xs)"

definition upper_symbols :: "position list \<Rightarrow> position list" where
  "upper_symbols df = map (\<lambda>p. p\<lparr>symbol := upper (symbol p)\<rparr>) df"

section \<open>The quote source\<close>

text \<open>
  What \<open>yfinance\<close> answers for one symbol: \<open>yf.Ticker(sym)\<close> or \<open>history\<close> raises, or
  \<open>history(period='5d')\<close> returns the list of its \<open>Close\<close> cells (empty when the frame
  is empty) and \<open>t.info\<close> either raises or gives \<open>regularMarketPrice\<close> (or no such key).
\<close>

datatype info_result = InfoRaises | InfoPrice "pyfloat option"

datatype ticker = TickerRaises | History "pyfloat list" info_result

type_synonym yfinance = "string \<Rightarrow> ticker"

section \<open>python\_portfolio\_tracker.py: PortfolioAnalyzer\<close>

text \<open>\<open>__init__\<close>: the analyzer's frame is a copy with the symbols uppercased.\<close>

definition analyzer_init :: "position list \<Rightarrow> position list" where
  "analyzer_init df_positions =
     (if df_positions \<noteq> [] then upper_symbols df_positions else df_positions)"

text \<open>The body of the \<open>try\<close> in \<open>fetch_prices\<close> with its \<open>except\<close> branch.\<close>

definition quote_cli :: "ticker \<Rightarrow> pyfloat" where
  "quote_cli t =
     (case t of
        TickerRaises \<Rightarrow> Fin 0
      | History closes info \<Rightarrow> (if closes \<noteq> [] then last closes else Fin 0))"

text \<open>The loop over the symbols; \<open>data\<close> is the dict, in insertion order.\<close>

fun fetch_loop :: "yfinance \<Rightarrow> string list \<Rightarrow> (string \<times> pyfloat) list \<Rightarrow> (string \<times> pyfloat) list" where
  "fetch_loop yf [] data = data"
| "fetch_loop yf (s # ss) data = fetch_loop yf ss (AList.update s (quote_cli (yf s)) data)"

definition fetch_prices :: "position list \<Rightarrow> yfinance \<Rightarrow> (string \<times> pyfloat) list" where
  "fetch_prices positions yf =
     (if positions = [] then []
      else fetch_loop yf (unique (map symbol positions)) [])"

text \<open>
  \<open>positions.merge(prices, on='symbol', how='left')\<close>: a left join that keeps the order
  of the left frame; a left row with no match gets a NaN price, one with several matches
  is repeated.
\<close>

definition merge_left :: "position list \<Rightarrow> (string \<times> pyfloat) list \<Rightarrow> priced list" where
  "merge_left positions prices =
     concat (map (\<lambda>p.
       (case filter (\<lambda>kv. fst kv = symbol p) prices of
          [] \<Rightarrow> [\<lparr>pos = p, current_price = NaN\<rparr>]
        | ms \<Rightarrow> map (\<lambda>kv. \<lparr>pos = p, current_price = snd kv\<rparr>) ms)) positions)"

text \<open>The four column assignments of \<open>summary\<close>, row by row (they are elementwise).\<close>

definition metrics_cli :: "priced \<Rightarrow> vrow" where
  "metrics_cli r =
     (let cv = fmul (shares (pos r)) (current_price r);
          cb = fmul (shares (pos r)) (cost_per_share (pos r));
          pa = fsub cv cb;
          pp = fdiv pa cb
      in \<lparr>pos = pos r, current_price = current_price r,
          current_value = cv, cost_basis = cb, pnl_abs = pa, pnl_pct = pp\<rparr>)"

text \<open>The dict \<open>summary\<close> returns: empty, or the four keys.\<close>

datatype summary_result =
  EmptyDict
| Summary "vrow list" pyfloat pyfloat pyfloat

definition summary :: "position list \<Rightarrow> yfinance \<Rightarrow> summary_result" where
  "summary positions yf =
     (if positions = [] then EmptyDict
      else
        (let prices = fetch_prices positions yf;
             df = map metrics_cli (merge_left positions prices);
             total_value = col_sum (map current_value df);
             total_cost = col_sum (map cost_basis df);
             total_pnl = fsub total_value total_cost
         in Summary df total_value total_cost total_pnl))"

section \<open>streamlit\_app.py: the dashboard's metric block\<close>

definition read_positions_df :: "position list \<Rightarrow> position list" where
  "read_positions_df table = (if table \<noteq> [] then upper_symbols table else table)"

definition quote_dash :: "ticker \<Rightarrow> pyfloat" where
  "quote_dash t =
     (case t of
        TickerRaises \<Rightarrow> Fin 0
      | History closes info \<Rightarrow>
          (if closes \<noteq> [] then last closes
           else (case info of
                   InfoRaises \<Rightarrow> Fin 0
                 | InfoPrice None \<Rightarrow> Fin 0
                 | InfoPrice (Some p) \<Rightarrow> p)))"

fun fetch_current_prices_loop :: "yfinance \<Rightarrow> string list \<Rightarrow> (string \<times> pyfloat) list \<Rightarrow> (string \<times> pyfloat) list" where
  "fetch_current_prices_loop yf [] prices = prices"
| "fetch_current_prices_loop yf (s # ss) prices =
     fetch_current_prices_loop yf ss (AList.update s (quote_dash (yf s)) prices)"

definition fetch_current_prices :: "yfinance \<Rightarrow> string list \<Rightarrow> (string \<times> pyfloat) list" where
  "fetch_current_prices yf symbols = fetch_current_prices_loop yf symbols []"

text \<open>\<open>df['symbol'].map(prices)\<close>: a key that is not in the dict maps to NaN.\<close>

definition map_prices :: "(string \<times> pyfloat) list \<Rightarrow> string \<Rightarrow> pyfloat" where
  "map_prices prices s = (case map_of prices s of None \<Rightarrow> NaN | Some v \<Rightarrow> v)"

definition metrics_dash :: "(string \<times> pyfloat) list \<Rightarrow> position \<Rightarrow> vrow" where
  "metrics_dash prices p =
     (let cp = map_prices prices (symbol p);
          cv = fmul (shares p) cp;
          cb = fmul (shares p) (cost_per_share p);
          pa = fsub cv cb;
          pp = fillna0 (fdiv pa cb)
      in \<lparr>pos = p, current_price = cp,
          current_value = cv, cost_basis = cb, pnl_abs = pa, pnl_pct = pp\<rparr>)"

definition dashboard_rows :: "position list \<Rightarrow> yfinance \<Rightarrow> vrow list" where
  "dashboard_rows df yf =
     (let symbols = unique (map symbol df);
          prices = fetch_current_prices yf symbols
      in map (metrics_dash prices) df)"

section \<open>streamlit\_app.py: aggregation per symbol\<close>

text \<open>
  \<open>df.groupby('symbol').agg({... 'sum'}).reset_index()\<close>: one row per distinct symbol,
  the groups in sorted key order, each column the NaN-skipping sum over the group.
  Then \<open>agg['pnl_pct']\<close>, the totals, and \<open>agg['allocation_pct']\<close> are added.
\<close>

record grouped =
  agg_symbol :: string
  agg_shares :: pyfloat
  agg_cost_basis :: pyfloat
  agg_current_value :: pyfloat
  agg_pnl_abs :: pyfloat

record with_pct = grouped +
  agg_pnl_pct :: pyfloat

record agg_row = with_pct +
  allocation_pct :: pyfloat

definition group_of :: "string \<Rightarrow> vrow list \<Rightarrow> vrow list" where
  "group_of k df = filter (\<lambda>r. symbol (pos r) = k) df"

definition group_keys :: "vrow list \<Rightarrow> string list" where
  "group_keys df = sort (remdups (map (\<lambda>r. symbol (pos r)) df))"

definition groupby_sum :: "vrow list \<Rightarrow> grouped list" where
  "groupby_sum df =
     map (\<lambda>k.
       \<lparr>agg_symbol = k,
        agg_shares = col_sum (map (\<lambda>r. shares (pos r)) (group_of k df)),
        agg_cost_basis = col_sum (map cost_basis (group_of k df)),
        agg_current_value = col_sum (map current_value (group_of k df)),
        agg_pnl_abs = col_sum (map pnl_abs (group_of k df))\<rparr>) (group_keys df)"

definition add_pnl_pct :: "grouped \<Rightarrow> with_pct" where
  "add_pnl_pct g =
     \<lparr>agg_symbol = agg_symbol g, agg_shares = agg_shares g,
      agg_cost_basis = agg_cost_basis g, agg_current_value = agg_current_value g,
      agg_pnl_abs = agg_pnl_abs g,
      agg_pnl_pct = fillna0 (fdiv (agg_pnl_abs g) (agg_cost_basis g))\<rparr>"

definition add_allocation :: "pyfloat \<Rightarrow> with_pct \<Rightarrow> agg_row" where
  "add_allocation total_value a =
     \<lparr>agg_symbol = agg_symbol a, agg_shares = agg_shares a,
      agg_cost_basis = agg_cost_basis a, agg_current_value = agg_current_value a,
      agg_pnl_abs = agg_pnl_abs a, agg_pnl_pct = agg_pnl_pct a,
      allocation_pct =
        fdiv (agg_current_value a) (if truthy total_value then total_value else Fin 1)\<rparr>"

text \<open>The aggregated table with \<open>total_value\<close>, \<open>total_cost\<close> and \<open>total_pnl\<close>.\<close>

definition aggregate :: "vrow list \<Rightarrow> agg_row list \<times> pyfloat \<times> pyfloat \<times> pyfloat" where
  "aggregate df =
     (let agg = map add_pnl_pct (groupby_sum df);
          total_value = col_sum (map agg_current_value agg);
          total_cost = col_sum (map agg_cost_basis agg);
          total_pnl = fsub total_value total_cost
      in (map (add_allocation total_value) agg, total_value, total_cost, total_pnl))"

text \<open>What the main page shows: the notice and \<open>st.stop()\<close>, or the tables and KPIs.\<close>

datatype page =
  NoPositionsYet
| Page "vrow list" "agg_row list" pyfloat pyfloat pyfloat

definition main_page :: "position list \<Rightarrow> yfinance \<Rightarrow> page" where
  "main_page table yf =
     (let df = read_positions_df table
      in if df = [] then NoPositionsYet
         else (let rows = dashboard_rows df yf
               in (case aggregate rows of
                     (agg, total_value, total_cost, total_pnl) \<Rightarrow>
                       Page rows agg total_value total_cost total_pnl)))"

section \<open>Sums in binary64\<close>

text \<open>
  The arithmetic above is exact. The program's cells are IEEE binary64 numbers, and each
  addition of a sum is rounded: the exact result goes to the nearest number with a 53-bit
  significand (ties to the even significand), down to the subnormal exponent, and to an
  infinity beyond the largest finite number. \<open>normalize\<close> scales a real into
  \<open>[2^52, 2^53)\<close> and returns the exponent; its first argument bounds the number of
  halvings and doublings, and 2200 is more than the exponent range of binary64 needs.
\<close>

definition round_even :: "real \<Rightarrow> int" where
  "round_even x =
     (let f = \<lfloor>x\<rfloor>; d = x - of_int f
      in if d < 1 / 2 then f else if 1 / 2 < d then f + 1 else if even f then f else f + 1)"

fun normalize :: "nat \<Rightarrow> real \<Rightarrow> int \<Rightarrow> real \<times> int" where
  "normalize 0 m e = (m, e)"
| "normalize (Suc n) m e =
     (if 9007199254740992 \<le> \<bar>m\<bar> then normalize n (m / 2) (e + 1)
      else if \<bar>m\<bar> < 4503599627370496 \<and> - 1074 < e then normalize n (m * 2) (e - 1)
      else (m, e))"

definition round64 :: "real \<Rightarrow> pyfloat" where
  "round64 x =
     (case normalize 2200 x 0 of
        (m, e) \<Rightarrow>
          (let k = round_even m
           in if 971 < e \<or> (e = 971 \<and> 9007199254740992 \<le> \<bar>k\<bar>) then signed_inf (0 < x)
              else Fin (of_int k * (if 0 \<le> e then 2 ^ nat e else 1 / 2 ^ nat (- e)))))"




section \<open>Storage\<close>

text \<open>
  The \<open>positions\<close> table with the counter of its \<open>AUTOINCREMENT\<close> key. The columns
  \<open>symbol\<close>, \<open>shares\<close>, \<open>cost_per_share\<close> and \<open>trade_date\<close> are \<open>NOT NULL\<close>; SQLite stores a
  NaN as NULL, so an insert of one is refused with an integrity error.
\<close>

record db =
  table :: "position list"
  seq :: int

datatype db_error = IntegrityError | OverflowError

definition insert_row ::
    "string \<Rightarrow> pyfloat \<Rightarrow> pyfloat \<Rightarrow> string \<Rightarrow> string option \<Rightarrow> db \<Rightarrow> db_error + db" where
  "insert_row sy sh c d n database =
     (if sh = NaN \<or> c = NaN then Inl IntegrityError
      else Inr \<lparr>table = table database @
                  [\<lparr>pos_id = seq database + 1, symbol = sy, shares = sh, cost_per_share = c,
                    trade_date = d, pos_note = n\<rparr>],
                seq = seq database + 1\<rparr>)"

text \<open>\<open>PortfolioDB.add_position\<close> (the CLI passes no note, so the default \<open>""\<close>).\<close>

definition add_position ::
    "string \<Rightarrow> pyfloat \<Rightarrow> pyfloat \<Rightarrow> string \<Rightarrow> string \<Rightarrow> db \<Rightarrow> db_error + db" where
  "add_position sy sh c d n database = insert_row (upper sy) sh c d (Some n) database"

definition list_positions :: "db \<Rightarrow> position list" where
  "list_positions database = table database"

text \<open>
  \<open>PortfolioDB.delete_position\<close>. The id is bound as a statement parameter: SQLite
  integers are signed 64-bit, and \<open>sqlite3\<close> raises \<open>OverflowError\<close> for a Python int
  outside that range (the command line's \<open>--id\<close> is an unbounded \<open>int\<close>).
\<close>

definition sqlite_int :: "int \<Rightarrow> bool" where
  "sqlite_int i = (- 9223372036854775808 \<le> i \<and> i \<le> 9223372036854775807)"

definition delete_position :: "int \<Rightarrow> db \<Rightarrow> db_error + db" where
  "delete_position position_id database =
     (if sqlite_int position_id
      then Inr (database\<lparr>table := filter (\<lambda>r. pos_id r \<noteq> position_id) (table database)\<rparr>)
      else Inl OverflowError)"

text \<open>The dashboard's \<open>add_trade\<close>.\<close>

definition add_trade ::
    "string \<Rightarrow> pyfloat \<Rightarrow> pyfloat \<Rightarrow> string \<Rightarrow> string \<Rightarrow> db \<Rightarrow> db_error + db" where
  "add_trade sy sh price d n database = insert_row (upper sy) sh price d (Some n) database"

text \<open>
  A parsed line of an imported CSV file with the header
  \<open>symbol,shares,cost_per_share,trade_date,note\<close>; an empty text cell is \<open>None\<close>, an empty
  numeric cell is NaN. \<open>import_csv_to_db\<close> appends the frame as it was read
  (\<open>df.to_sql(..., if_exists="append")\<close>), in one transaction.
\<close>

record csv_row =
  csv_symbol :: "string option"
  csv_shares :: pyfloat
  csv_cost_per_share :: pyfloat
  csv_trade_date :: "string option"
  csv_note :: "string option"

fun to_sql :: "csv_row list \<Rightarrow> db \<Rightarrow> db_error + db" where
  "to_sql [] database = Inr database"
| "to_sql (r # rs) database =
     (case (csv_symbol r, csv_trade_date r) of
        (Some sy, Some d) \<Rightarrow>
          (case insert_row sy (csv_shares r) (csv_cost_per_share r) d (csv_note r) database of
             Inl e \<Rightarrow> Inl e
           | Inr database' \<Rightarrow> to_sql rs database')
      | _ \<Rightarrow> Inl IntegrityError)"

definition import_csv_to_db :: "csv_row list \<Rightarrow> db \<Rightarrow> db_error + db" where
  "import_csv_to_db df database = to_sql df database"

section \<open>python\_portfolio\_tracker.py: the view command\<close>

datatype printed =
  Line string
| Totals pyfloat pyfloat pyfloat
| Tabulated "vrow list"

definition show_table :: "vrow list \<Rightarrow> printed list" where
  "show_table df_table = (if df_table = [] then [Line ''No positions.''] else [Tabulated df_table])"

definition main_view :: "db \<Rightarrow> yfinance \<Rightarrow> printed list" where
  "main_view database yf =
     (let df = list_positions database;
          pa = analyzer_init df;
          s = summary pa yf
      in (case s of
            EmptyDict \<Rightarrow> [Line ''No positions.'']
          | Summary rows total_value total_cost total_pnl \<Rightarrow>
              Totals total_value total_cost total_pnl # show_table rows))"

section \<open>Data frames as objects\<close>

text \<open>
  For the effect of the analyzer on its argument the frames live in a store: a data
  frame variable holds an address, \<open>copy\<close> and \<open>merge\<close> allocate a new frame, and a
  column assignment \<open>df[c] = ...\<close> overwrites the frame at the address of \<open>df\<close>.
  The four metric assignments of \<open>summary\<close> are one overwrite of the merged frame.
  An operation on an address that holds no positions frame is \<open>None\<close>.
\<close>

datatype frame = Positions "position list" | Merged "priced list" | Valued "vrow list"

type_synonym store = "frame list"

definition positions_at :: "store \<Rightarrow> nat \<Rightarrow> position list option" where
  "positions_at h a =
     (if a < length h then (case h ! a of Positions ps \<Rightarrow> Some ps | _ \<Rightarrow> None) else None)"

text \<open>\<open>__init__\<close>: returns the address held by \<open>self.positions\<close>.\<close>

definition PortfolioAnalyzer_init :: "nat \<Rightarrow> store \<Rightarrow> (nat \<times> store) option" where
  "PortfolioAnalyzer_init df_positions h =
     (case positions_at h df_positions of
        None \<Rightarrow> None
      | Some ps \<Rightarrow>
          (let self_positions = length h;
               h1 = h @ [Positions ps]
           in if ps \<noteq> []
              then Some (self_positions, h1[self_positions := Positions (upper_symbols ps)])
              else Some (self_positions, h1)))"

datatype summary_ref =
  EmptyDictRef
| SummaryRef nat pyfloat pyfloat pyfloat

definition summary_store :: "nat \<Rightarrow> yfinance \<Rightarrow> store \<Rightarrow> (summary_ref \<times> store) option" where
  "summary_store self_positions yf h =
     (case positions_at h self_positions of
        None \<Rightarrow> None
      | Some ps \<Rightarrow>
          (if ps = [] then Some (EmptyDictRef, h)
           else
             (let prices = fetch_prices ps yf;
                  df = length h;
                  h1 = h @ [Merged (merge_left ps prices)];
                  rows = map metrics_cli (merge_left ps prices);
                  h2 = h1[df := Valued rows];
                  total_value = col_sum (map current_value rows);
                  total_cost = col_sum (map cost_basis rows);
                  total_pnl = fsub total_value total_cost
              in Some (SummaryRef df total_value total_cost total_pnl, h2))))"

text \<open>The caller: \<open>pa = PortfolioAnalyzer(df); s = pa.summary()\<close>.\<close>

definition analyze :: "nat \<Rightarrow> yfinance \<Rightarrow> store \<Rightarrow> (summary_ref \<times> store) option" where
  "analyze df yf h =
     (case PortfolioAnalyzer_init df h of
        None \<Rightarrow> None
      | Some (pa, h1) \<Rightarrow> summary_store pa yf h1)"

section \<open>Auxiliary notions for the statements\<close>

text \<open>The rows of a summary (none for the empty dict).\<close>

definition summary_rows :: "summary_result \<Rightarrow> vrow list" where
  "summary_rows s = (case s of EmptyDict \<Rightarrow> [] | Summary rows tv tc tp \<Rightarrow> rows)"






text \<open>The primary key: no two stored rows share an id, and no id is above the counter.\<close>

definition db_ok :: "db \<Rightarrow> bool" where
  "db_ok database =
     (distinct (map pos_id (table database)) \<and>
      list_all (\<lambda>r. pos_id r \<le> seq database) (table database))"

section \<open>Example inputs\<close>

text \<open>A quote source whose every history ends with the close \<open>p\<close>, and one that is down.\<close>

definition yf_close :: "real \<Rightarrow> yfinance" where
  "yf_close p s = History [Fin p] (InfoPrice None)"

definition yf_down :: yfinance where
  "yf_down s = TickerRaises"


text \<open>A lot of \<open>n\<close> shares of \<open>s\<close> bought at \<open>c\<close>.\<close>

definition lot :: "int \<Rightarrow> string \<Rightarrow> real \<Rightarrow> real \<Rightarrow> position" where
  "lot i s n c =
     \<lparr>pos_id = i, symbol = s, shares = Fin n, cost_per_share = Fin c,
      trade_date = ''2024-01-02'', pos_note = Some ''''\<rparr>"

definition empty_db :: db where
  "empty_db = \<lparr>table = [], seq = 0\<rparr>"

definition csv_line :: "string \<Rightarrow> real \<Rightarrow> real \<Rightarrow> csv_row" where
  "csv_line s n c =
     \<lparr>csv_symbol = Some s, csv_shares = Fin n, csv_cost_per_share = Fin c,
      csv_trade_date = Some ''2024-01-02'', csv_note = None\<rparr>"

definition two_rows_db :: db where
  "two_rows_db = \<lparr>table = [lot 1 ''AAPL'' 5 100, lot 2 ''MSFT'' 3 50], seq = 2\<rparr>"


definition two_lots :: "position list" where
  "two_lots = [lot 1 ''AAPL'' 5 100, lot 2 ''AAPL'' 5 120]"

definition three_lots :: "position list" where
  "three_lots = [lot 1 ''MSFT'' 2 300, lot 2 ''AAPL'' 5 100, lot 3 ''AAPL'' 5 120]"




text \<open>A store that holds one positions frame, at address 0.\<close>

definition store0 :: store where
  "store0 = [Positions [lot 1 ''aapl'' 10 150]]"

section \<open>Division by a zero cost basis\<close>

text \<open>
  With a cost basis of zero the command-line \<open>summary\<close> never yields a finite
  \<open>pnl_pct\<close>: the quotient is NaN or an infinity and nothing replaces it. The dashboard
  replaces the NaN only.
\<close>

lemma fdiv_by_zero_not_finite: "\<not> is_finite (fdiv x (Fin 0))"
  by (cases x) (simp_all add: signed_inf_def)

lemma metrics_cli_zero_cost_basis:
  "cost_basis (metrics_cli r) = Fin 0 \<Longrightarrow> \<not> is_finite (pnl_pct (metrics_cli r))"
  by (simp add: metrics_cli_def Let_def fdiv_by_zero_not_finite)

lemma fsub_zero: "fsub x (Fin 0) = x"
  by (cases x) (simp_all add: fsub_def)

lemma metrics_dash_zero_cost_basis:
  "cost_basis (metrics_dash prices p) = Fin 0 \<Longrightarrow>
     pnl_pct (metrics_dash prices p) = fillna0 (fdiv (current_value (metrics_dash prices p)) (Fin 0))"
  by (simp add: metrics_dash_def Let_def fsub_zero)

text \<open>
  C1 (fails on the code). The claim: a row whose cost basis is 0 gets \<open>pnl_pct = 0\<close>.
  On the command line, a lot of 0 shares bought at 150 and quoted at 180 has cost basis 0
  and \<open>pnl_pct\<close> NaN, and a lot of 5 shares acquired at cost 0 and quoted at 10 has cost
  basis 0 and \<open>pnl_pct\<close> infinite; on the dashboard, whose \<open>fillna(0)\<close> covers the first
  lot, the second still has an infinite \<open>pnl_pct\<close>.
\<close>

theorem pnl_pct_at_zero_cost_basis:
  "map (\<lambda>r. (cost_basis r, pnl_pct r))
     (summary_rows (summary (analyzer_init [lot 1 ''AAPL'' 0 150]) (yf_close 180))) = [(Fin 0, NaN)]
   \<and> map (\<lambda>r. (cost_basis r, pnl_pct r))
     (summary_rows (summary (analyzer_init [lot 1 ''AAPL'' 5 0]) (yf_close 10))) = [(Fin 0, PInf)]
   \<and> map (\<lambda>r. (cost_basis r, pnl_pct r))
     (dashboard_rows (read_positions_df [lot 1 ''AAPL'' 0 150]) (yf_close 180)) = [(Fin 0, Fin 0)]
   \<and> map (\<lambda>r. (cost_basis r, pnl_pct r))
     (dashboard_rows (read_positions_df [lot 1 ''AAPL'' 5 0]) (yf_close 10)) = [(Fin 0, PInf)]"
  by code_simp

section \<open>The empty portfolio\<close>

text \<open>
  C2, the claim as stated fails: for the empty frame \<open>summary\<close> does not return an empty
  table with three zero totals.
\<close>

theorem summary_empty_counterexample:
  "summary (analyzer_init []) yf_down \<noteq> Summary [] (Fin 0) (Fin 0) (Fin 0)"
  by (simp add: summary_def analyzer_init_def)

text \<open>
  C2, as amended: for the empty positions table \<open>summary\<close> returns the empty dict (no
  rows and no totals) without raising, whatever the quote source does; the \<open>view\<close>
  command then prints exactly \<open>No positions.\<close>, and the dashboard shows its notice
  instead of any table.
\<close>

theorem summary_empty:
  "summary (analyzer_init []) yf = EmptyDict
   \<and> main_view \<lparr>table = [], seq = n\<rparr> yf = [Line ''No positions.'']
   \<and> main_page [] yf = NoPositionsYet"
  by (simp add: summary_def analyzer_init_def main_view_def list_positions_def
      main_page_def read_positions_df_def)

section \<open>Symbols on the write paths\<close>

lemma upper_char_idem: "upper_char (upper_char c) = upper_char c"
proof (cases "CHR ''a'' \<le> c \<and> c \<le> CHR ''z''")
  case False
  then have "upper_char c = c" unfolding upper_char_def by (simp only: if_False)
  then show ?thesis by simp
next
  case True
  then have r: "97 \<le> (of_char c :: nat)" "(of_char c :: nat) \<le> 122"
    by (simp_all add: less_eq_char_def)
  then have "(of_char (char_of (of_char c - (32::nat)) :: char) :: nat) < 97"
    by simp
  then have "\<not> CHR ''a'' \<le> (char_of (of_char c - (32::nat)) :: char)"
    by (simp add: less_eq_char_def)
  moreover have "upper_char c = char_of (of_char c - (32::nat))"
    using True by (simp add: upper_char_def)
  ultimately show ?thesis by (simp add: upper_char_def)
qed

lemma upper_idem: "upper (upper s) = upper s"
  by (simp add: upper_def upper_char_idem)

lemma add_position_symbol:
  "add_position sy sh c d n database = Inr database' \<Longrightarrow>
     table database' = table database @ [last (table database')] \<and>
     symbol (last (table database')) = upper sy"
  by (auto simp: add_position_def insert_row_def split: if_splits)

lemma add_trade_symbol:
  "add_trade sy sh c d n database = Inr database' \<Longrightarrow>
     table database' = table database @ [last (table database')] \<and>
     symbol (last (table database')) = upper sy"
  by (auto simp: add_trade_def insert_row_def split: if_splits)

text \<open>
  C8 (fails on the code). The claim: every write path persists the symbol uppercased.
  \<open>add_position\<close> and \<open>add_trade\<close> do; \<open>import_csv_to_db\<close> appends the file's rows as
  read, so the CSV line \<open>aapl,10,150,2024-01-02,\<close> is stored with the symbol \<open>aapl\<close>,
  which is not its own uppercasing, while \<open>add_position\<close> stores \<open>AAPL\<close> for the same
  input.
\<close>

theorem import_csv_keeps_lowercase:
  "import_csv_to_db [csv_line ''aapl'' 10 150] empty_db =
     Inr \<lparr>table = [\<lparr>pos_id = 1, symbol = ''aapl'', shares = Fin 10, cost_per_share = Fin 150,
                    trade_date = ''2024-01-02'', pos_note = None\<rparr>], seq = 1\<rparr>
   \<and> upper ''aapl'' = ''AAPL''
   \<and> add_position ''aapl'' (Fin 10) (Fin 150) ''2024-01-02'' [] empty_db =
     Inr \<lparr>table = [\<lparr>pos_id = 1, symbol = ''AAPL'', shares = Fin 10, cost_per_share = Fin 150,
                    trade_date = ''2024-01-02'', pos_note = Some []\<rparr>], seq = 1\<rparr>"
  by code_simp

section \<open>One row per position\<close>

lemma set_unique: "set (unique xs) = set xs"
  by (induction xs rule: unique.induct) auto

lemma filter_key_distinct:
  "distinct (map fst al) \<Longrightarrow> map_of al k = Some v \<Longrightarrow> filter (\<lambda>kv. fst kv = k) al = [(k, v)]"
proof (induction al)
  case Nil
  then show ?case by simp
next
  case (Cons a al)
  show ?case
  proof (cases "fst a = k")
    case True
    with Cons.prems have "a = (k, v)" by (cases a) simp
    moreover from Cons.prems True have "k \<notin> fst ` set al" by simp
    then have "filter (\<lambda>kv. fst kv = k) al = []"
      by (auto simp: filter_empty_conv)
    ultimately show ?thesis by simp
  next
    case False
    with Cons show ?thesis by (cases a) simp
  qed
qed

lemma fetch_loop_distinct:
  "distinct (map fst data) \<Longrightarrow> distinct (map fst (fetch_loop yf ss data))"
  by (induction ss arbitrary: data) (simp_all add: distinct_update)

lemma fetch_loop_map_of:
  "map_of (fetch_loop yf ss data) k =
     (if k \<in> set ss then Some (quote_cli (yf k)) else map_of data k)"
  by (induction ss arbitrary: data) (simp_all add: update_conv')

lemma fetch_current_prices_loop_map_of:
  "map_of (fetch_current_prices_loop yf ss prices) k =
     (if k \<in> set ss then Some (quote_dash (yf k)) else map_of prices k)"
  by (induction ss arbitrary: prices) (simp_all add: update_conv')

lemma merge_left_fetch_prices:
  "merge_left positions (fetch_prices positions yf) =
     map (\<lambda>p. \<lparr>pos = p, current_price = quote_cli (yf (symbol p))\<rparr>) positions"
proof (cases "positions = []")
  case True
  then show ?thesis by (simp add: merge_left_def)
next
  case False
  define al where "al = fetch_loop yf (unique (map symbol positions)) []"
  have d: "distinct (map fst al)"
    unfolding al_def by (rule fetch_loop_distinct) simp
  have m: "map_of al (symbol p) = Some (quote_cli (yf (symbol p)))" if "p \<in> set positions" for p
    using that unfolding al_def by (simp add: fetch_loop_map_of set_unique)
  have "(case filter (\<lambda>kv. fst kv = symbol p) al of
            [] \<Rightarrow> [\<lparr>pos = p, current_price = NaN\<rparr>]
          | ms \<Rightarrow> map (\<lambda>kv. \<lparr>pos = p, current_price = snd kv\<rparr>) ms)
        = [\<lparr>pos = p, current_price = quote_cli (yf (symbol p))\<rparr>]"
    if "p \<in> set positions" for p
    using filter_key_distinct [OF d m [OF that]] by simp
  then have "merge_left positions al =
      concat (map (\<lambda>p. [\<lparr>pos = p, current_price = quote_cli (yf (symbol p))\<rparr>]) positions)"
    unfolding merge_left_def by (simp cong: map_cong)
  also have "\<dots> = map (\<lambda>p. \<lparr>pos = p, current_price = quote_cli (yf (symbol p))\<rparr>) positions"
    by (induction positions) simp_all
  finally show ?thesis using False by (simp add: fetch_prices_def al_def)
qed

lemma analyzer_init_upper: "analyzer_init df = upper_symbols df"
  by (simp add: analyzer_init_def upper_symbols_def)

lemma read_positions_df_upper: "read_positions_df df = upper_symbols df"
  by (simp add: read_positions_df_def upper_symbols_def)

lemma summary_rows_summary:
  "summary_rows (summary positions yf) =
     map (\<lambda>p. metrics_cli \<lparr>pos = p, current_price = quote_cli (yf (symbol p))\<rparr>) positions"
  by (simp add: summary_def summary_rows_def Let_def merge_left_fetch_prices comp_def)

lemma dashboard_rows_eq:
  "dashboard_rows df yf =
     map (\<lambda>p. metrics_dash [(symbol p, quote_dash (yf (symbol p)))] p) df"
  by (simp add: dashboard_rows_def Let_def metrics_dash_def map_prices_def fetch_current_prices_def
      fetch_current_prices_loop_map_of set_unique)

text \<open>
  C4. For every positions frame and every behaviour of the quote source, the rows of
  \<open>summary\<close> and the rows of the dashboard are the input positions in their order, one
  row per position and none dropped (each with its symbol uppercased, and priced with the
  quote of that symbol, which is the sentinel 0 when no price is obtainable). For the
  empty frame \<open>summary\<close> returns the empty dict, which has no rows.
\<close>

theorem metrics_one_row_per_position:
  "map pos (summary_rows (summary (analyzer_init df) yf)) = upper_symbols df
   \<and> map current_price (summary_rows (summary (analyzer_init df) yf)) =
       map (\<lambda>p. quote_cli (yf (symbol p))) (upper_symbols df)
   \<and> map pos (dashboard_rows (read_positions_df df) yf) = upper_symbols df
   \<and> map current_price (dashboard_rows (read_positions_df df) yf) =
       map (\<lambda>p. quote_dash (yf (symbol p))) (upper_symbols df)"
  by (simp add: summary_rows_summary dashboard_rows_eq analyzer_init_upper read_positions_df_upper
      comp_def metrics_cli_def metrics_dash_def Let_def map_prices_def)








section \<open>Deleting a position\<close>

text \<open>The primary key is an invariant of every write operation.\<close>

lemma insert_row_ok:
  "db_ok database \<Longrightarrow> insert_row sy sh c d n database = Inr database' \<Longrightarrow> db_ok database'"
  by (fastforce simp: db_ok_def insert_row_def list_all_iff split: if_splits)

lemma to_sql_ok:
  "db_ok database \<Longrightarrow> to_sql rs database = Inr database' \<Longrightarrow> db_ok database'"
proof (induction rs arbitrary: database)
  case Nil
  then show ?case by simp
next
  case (Cons r rs)
  then show ?case
    by (auto split: option.splits sum.splits dest: insert_row_ok)
qed

lemma delete_position_ok:
  "db_ok database \<Longrightarrow> delete_position position_id database = Inr database' \<Longrightarrow> db_ok database'"
  by (auto simp: db_ok_def delete_position_def list_all_iff distinct_map_filter split: if_splits)

lemma empty_db_ok: "db_ok empty_db"
  by (simp add: db_ok_def empty_db_def)

lemma delete_position_no_match:
  assumes "sqlite_int position_id" and "position_id \<notin> pos_id ` set (table database)"
  shows "delete_position position_id database = Inr database"
proof -
  from assms(2) have "filter (\<lambda>r. pos_id r \<noteq> position_id) (table database) = table database"
    by (auto simp: filter_id_conv)
  with assms(1) show ?thesis by (simp add: delete_position_def)
qed

lemma filter_other_ids:
  assumes "distinct (map pos_id (xs @ r # ys))"
  shows "filter (\<lambda>x. pos_id x \<noteq> pos_id r) (xs @ r # ys) = xs @ ys"
proof -
  from assms have "pos_id r \<notin> pos_id ` set xs" "pos_id r \<notin> pos_id ` set ys"
    by auto
  then have "\<forall>x\<in>set xs. pos_id x \<noteq> pos_id r" "\<forall>x\<in>set ys. pos_id x \<noteq> pos_id r"
    by (metis imageI)+
  then have "filter (\<lambda>x. pos_id x \<noteq> pos_id r) xs = xs" "filter (\<lambda>x. pos_id x \<noteq> pos_id r) ys = ys"
    by simp_all
  then show ?thesis by simp
qed

text \<open>
  C10, the claim as stated fails: not every id succeeds. The id \<open>2^63\<close>, which the command
  line's \<open>--id\<close> accepts and which matches no row, is not bound by SQLite: the delete raises
  \<open>OverflowError\<close> instead of leaving the table unchanged without error.
\<close>

theorem delete_position_out_of_range_counterexample:
  "9223372036854775808 \<notin> pos_id ` set (table two_rows_db)
   \<and> delete_position 9223372036854775808 two_rows_db = Inl OverflowError"
  by (simp add: two_rows_db_def delete_position_def sqlite_int_def lot_def)

text \<open>
  C10, as amended: for every id in the signed 64-bit range, \<open>delete_position\<close> succeeds
  without error; with an id that matches no stored row it leaves the database unchanged;
  the rows it keeps are exactly the rows with another id, and the key counter is not
  touched; in a table whose ids are distinct (the primary key) a matching id removes
  exactly the one row that has it and no other row. An id outside that range raises
  \<open>OverflowError\<close>.
\<close>

theorem delete_position_removes_only_id:
  "(sqlite_int position_id \<and> position_id \<notin> pos_id ` set (table database) \<longrightarrow>
      delete_position position_id database = Inr database)
   \<and> (sqlite_int position_id \<and> distinct (map pos_id (table database))
        \<and> position_id \<in> pos_id ` set (table database) \<longrightarrow>
        (\<exists>xs r ys. table database = xs @ r # ys \<and> pos_id r = position_id
           \<and> delete_position position_id database = Inr (database\<lparr>table := xs @ ys\<rparr>)))
   \<and> (sqlite_int position_id \<longrightarrow>
        (\<exists>database'. delete_position position_id database = Inr database'
           \<and> table database' = filter (\<lambda>r. pos_id r \<noteq> position_id) (table database)
           \<and> set (table database') = {r \<in> set (table database). pos_id r \<noteq> position_id}
           \<and> seq database' = seq database))
   \<and> (\<not> sqlite_int position_id \<longrightarrow> delete_position position_id database = Inl OverflowError)"
proof (intro conjI impI)
  assume "sqlite_int position_id \<and> position_id \<notin> pos_id ` set (table database)"
  then show "delete_position position_id database = Inr database"
    by (simp add: delete_position_no_match)
next
  assume h: "sqlite_int position_id \<and> distinct (map pos_id (table database))
      \<and> position_id \<in> pos_id ` set (table database)"
  then obtain r where "r \<in> set (table database)" and r: "pos_id r = position_id"
    by auto
  then obtain xs ys where t: "table database = xs @ r # ys"
    by (auto dest: split_list)
  with h have "filter (\<lambda>x. pos_id x \<noteq> pos_id r) (table database) = xs @ ys"
    by (simp only: filter_other_ids)
  with r t h show "\<exists>xs r ys. table database = xs @ r # ys \<and> pos_id r = position_id
      \<and> delete_position position_id database = Inr (database\<lparr>table := xs @ ys\<rparr>)"
    by (auto simp: delete_position_def)
next
  assume "sqlite_int position_id"
  then show "\<exists>database'. delete_position position_id database = Inr database'
      \<and> table database' = filter (\<lambda>r. pos_id r \<noteq> position_id) (table database)
      \<and> set (table database') = {r \<in> set (table database). pos_id r \<noteq> position_id}
      \<and> seq database' = seq database"
    by (simp add: delete_position_def)
next
  assume "\<not> sqlite_int position_id"
  then show "delete_position position_id database = Inl OverflowError"
    by (simp add: delete_position_def)
qed

theorem delete_position_removes_only_id_witness:
  "sqlite_int 7 \<and> sqlite_int 1 \<and> \<not> sqlite_int (- 9223372036854775809)
   \<and> distinct (map pos_id (table two_rows_db))
   \<and> 7 \<notin> pos_id ` set (table two_rows_db)
   \<and> delete_position 7 two_rows_db = Inr two_rows_db
   \<and> 1 \<in> pos_id ` set (table two_rows_db)
   \<and> (\<exists>xs r ys. table two_rows_db = xs @ r # ys \<and> pos_id r = 1
        \<and> delete_position 1 two_rows_db = Inr (two_rows_db\<lparr>table := xs @ ys\<rparr>))
   \<and> (\<exists>database'. delete_position 1 two_rows_db = Inr database'
        \<and> table database' = [lot 2 ''MSFT'' 3 50] \<and> seq database' = 2)
   \<and> delete_position (- 9223372036854775809) two_rows_db = Inl OverflowError"
proof -
  have s: "sqlite_int 7" "sqlite_int 1" "\<not> sqlite_int (- 9223372036854775809)"
    by (simp_all add: sqlite_int_def)
  have d: "distinct (map pos_id (table two_rows_db))"
    by (simp add: two_rows_db_def lot_def)
  have n: "7 \<notin> pos_id ` set (table two_rows_db)"
    by (simp add: two_rows_db_def lot_def)
  have m: "1 \<in> pos_id ` set (table two_rows_db)"
    by (simp add: two_rows_db_def lot_def)
  have f: "filter (\<lambda>r. pos_id r \<noteq> 1) (table two_rows_db) = [lot 2 ''MSFT'' 3 50]"
    by (simp add: two_rows_db_def lot_def)
  have q: "seq two_rows_db = 2"
    by (simp add: two_rows_db_def)
  note t7 = delete_position_removes_only_id [of 7 two_rows_db]
  note t1 = delete_position_removes_only_id [of 1 two_rows_db]
  note tn = delete_position_removes_only_id [of "- 9223372036854775809" two_rows_db]
  from t7 s(1) n have a: "delete_position 7 two_rows_db = Inr two_rows_db"
    by blast
  from t1 s(2) d m have b: "\<exists>xs r ys. table two_rows_db = xs @ r # ys \<and> pos_id r = 1
      \<and> delete_position 1 two_rows_db = Inr (two_rows_db\<lparr>table := xs @ ys\<rparr>)"
    by blast
  from t1 s(2) f q have c: "\<exists>database'. delete_position 1 two_rows_db = Inr database'
      \<and> table database' = [lot 2 ''MSFT'' 3 50] \<and> seq database' = 2"
    by auto
  from tn s(3) have e: "delete_position (- 9223372036854775809) two_rows_db = Inl OverflowError"
    by blast
  from s d n m a b c e show ?thesis by blast
qed

section \<open>The analyzer does not write to its argument\<close>

lemma positions_at_append:
  "positions_at h a = Some ps \<Longrightarrow> positions_at (h @ new) a = Some ps"
  by (simp add: positions_at_def nth_append split: if_splits)

lemma PortfolioAnalyzer_init_eq:
  assumes "positions_at h df = Some ps"
  shows "PortfolioAnalyzer_init df h = Some (length h, h @ [Positions (analyzer_init ps)])"
  using assms by (simp add: PortfolioAnalyzer_init_def Let_def analyzer_init_def)

lemma summary_store_eq:
  assumes "positions_at h pa = Some ps"
  shows "summary_store pa yf h =
     Some (case summary ps yf of
             EmptyDict \<Rightarrow> (EmptyDictRef, h)
           | Summary rows tv tc tp \<Rightarrow> (SummaryRef (length h) tv tc tp, h @ [Valued rows]))"
  using assms by (simp add: summary_store_def summary_def Let_def)

lemma analyze_eq:
  assumes "positions_at h df = Some ps"
  shows "analyze df yf h =
     Some (case summary (analyzer_init ps) yf of
             EmptyDict \<Rightarrow> (EmptyDictRef, h @ [Positions (analyzer_init ps)])
           | Summary rows tv tc tp \<Rightarrow>
               (SummaryRef (Suc (length h)) tv tc tp,
                h @ [Positions (analyzer_init ps), Valued rows]))"
proof -
  have "positions_at (h @ [Positions (analyzer_init ps)]) (length h) = Some (analyzer_init ps)"
    by (simp add: positions_at_def)
  from summary_store_eq [OF this, of yf] show ?thesis
    by (simp add: analyze_def PortfolioAnalyzer_init_eq [OF assms] split: summary_result.splits)
qed

text \<open>
  C9. Constructing a \<open>PortfolioAnalyzer\<close> on the caller's positions frame and calling
  \<open>summary\<close> returns a result and only adds frames to the store: every frame that
  existed before, the caller's positions frame among them, is unchanged. The uppercased
  symbols are written to the analyzer's own copy, and the metric columns to the frame the
  merge allocated.
\<close>

theorem analyzer_leaves_input_unchanged:
  assumes "positions_at h df = Some ps"
  shows "\<exists>r new. analyze df yf h = Some (r, h @ new)
           \<and> take (length h) (h @ new) = h
           \<and> positions_at (h @ new) df = Some ps
           \<and> positions_at (h @ new) (length h) = Some (upper_symbols ps)"
proof (cases "summary (analyzer_init ps) yf")
  case EmptyDict
  with analyze_eq [OF assms, of yf]
  have "analyze df yf h = Some (EmptyDictRef, h @ [Positions (analyzer_init ps)])"
    by simp
  moreover have "positions_at (h @ [Positions (analyzer_init ps)]) (length h) = Some (upper_symbols ps)"
    by (simp add: positions_at_def analyzer_init_def upper_symbols_def)
  ultimately show ?thesis
    using positions_at_append [OF assms] by fastforce
next
  case (Summary rows tv tc tp)
  with analyze_eq [OF assms, of yf]
  have "analyze df yf h =
      Some (SummaryRef (Suc (length h)) tv tc tp, h @ [Positions (analyzer_init ps), Valued rows])"
    by simp
  moreover have "positions_at (h @ [Positions (analyzer_init ps), Valued rows]) (length h)
      = Some (upper_symbols ps)"
    by (simp add: positions_at_def analyzer_init_def upper_symbols_def)
  ultimately show ?thesis
    using positions_at_append [OF assms] by fastforce
qed

theorem analyzer_leaves_input_unchanged_witness:
  "positions_at store0 0 = Some [lot 1 ''aapl'' 10 150]
   \<and> (\<exists>r new. analyze 0 (yf_close 180) store0 = Some (r, store0 @ new)
        \<and> take (length store0) (store0 @ new) = store0
        \<and> positions_at (store0 @ new) 0 = Some [lot 1 ''aapl'' 10 150]
        \<and> positions_at (store0 @ new) (length store0) = Some (upper_symbols [lot 1 ''aapl'' 10 150]))"
proof -
  have h: "positions_at store0 0 = Some [lot 1 ''aapl'' 10 150]"
    by (simp add: positions_at_def store0_def)
  from analyzer_leaves_input_unchanged [OF h, of "yf_close 180"] h show ?thesis by blast
qed

section \<open>Aggregation preserves the totals\<close>

subsection \<open>NaN-skipping sums\<close>







subsection \<open>Sums over the groups\<close>



lemma group_keys_distinct: "distinct (group_keys df)"
  by (simp add: group_keys_def)

lemma group_keys_set: "set (group_keys df) = (\<lambda>r. symbol (pos r)) ` set df"
  by (simp add: group_keys_def)




subsection \<open>The aggregated table\<close>







text \<open>Above \<open>2^53\<close> the odd integers are not binary64 numbers; a tie goes to the even significand.\<close>

lemma round64_ties:
  "round64 9007199254740993 = Fin 9007199254740992
   \<and> round64 9007199254740995 = Fin 9007199254740996
   \<and> round64 9007199254740994 = Fin 9007199254740994"
  by code_simp





section \<open>Allocation\<close>














section \<open>Aggregation per symbol\<close>

lemma aggregate_rows:
  "fst (aggregate df) =
     map (\<lambda>k. add_allocation (fst (snd (aggregate df)))
       (add_pnl_pct
         \<lparr>agg_symbol = k,
          agg_shares = col_sum (map (\<lambda>r. shares (pos r)) (group_of k df)),
          agg_cost_basis = col_sum (map cost_basis (group_of k df)),
          agg_current_value = col_sum (map current_value (group_of k df)),
          agg_pnl_abs = col_sum (map pnl_abs (group_of k df))\<rparr>)) (group_keys df)"
  by (simp add: aggregate_def Let_def groupby_sum_def comp_def)

lemma aggregate_symbols: "map agg_symbol (fst (aggregate df)) = group_keys df"
  by (simp add: aggregate_rows add_allocation_def add_pnl_pct_def comp_def)

text \<open>
  C7. The aggregated table has one row per distinct symbol of the input, in sorted order.
  In the row of a symbol, \<open>shares\<close>, \<open>cost_basis\<close>, \<open>current_value\<close> and \<open>pnl_abs\<close> are the
  sums over exactly the input rows that carry this symbol, and \<open>pnl_pct\<close> is the summed
  \<open>pnl_abs\<close> divided by the summed \<open>cost_basis\<close> (NaN replaced by 0), not a mean of the
  lots' percentages. Two lots of one symbol, 5 shares at 100 and 5 shares at 120, quoted at
  110, aggregate to cost 1100, value 1100, \<open>pnl_abs\<close> 0 and \<open>pnl_pct\<close> 0, while the lots'
  own percentages are 1/10 and -1/12; with a lot of a second symbol in the table, that
  symbol is summed apart.
\<close>

theorem aggregate_by_symbol:
  "distinct (map agg_symbol (fst (aggregate df)))
   \<and> sorted (map agg_symbol (fst (aggregate df)))
   \<and> set (map agg_symbol (fst (aggregate df))) = (\<lambda>r. symbol (pos r)) ` set df
   \<and> (\<forall>a \<in> set (fst (aggregate df)).
         agg_shares a =
           col_sum (map (\<lambda>r. shares (pos r)) (filter (\<lambda>r. symbol (pos r) = agg_symbol a) df))
       \<and> agg_cost_basis a =
           col_sum (map cost_basis (filter (\<lambda>r. symbol (pos r) = agg_symbol a) df))
       \<and> agg_current_value a =
           col_sum (map current_value (filter (\<lambda>r. symbol (pos r) = agg_symbol a) df))
       \<and> agg_pnl_abs a =
           col_sum (map pnl_abs (filter (\<lambda>r. symbol (pos r) = agg_symbol a) df))
       \<and> agg_pnl_pct a = fillna0 (fdiv (agg_pnl_abs a) (agg_cost_basis a))
       \<and> (\<forall>p c. agg_pnl_abs a = Fin p \<and> agg_cost_basis a = Fin c \<and> c \<noteq> 0 \<longrightarrow>
             agg_pnl_pct a = Fin (p / c)))
   \<and> aggregate (dashboard_rows (read_positions_df two_lots) (yf_close 110)) =
       ([\<lparr>agg_symbol = ''AAPL'', agg_shares = Fin 10, agg_cost_basis = Fin 1100,
          agg_current_value = Fin 1100, agg_pnl_abs = Fin 0, agg_pnl_pct = Fin 0,
          allocation_pct = Fin 1\<rparr>], Fin 1100, Fin 1100, Fin 0)
   \<and> map pnl_pct (dashboard_rows (read_positions_df two_lots) (yf_close 110)) =
       [Fin (1 / 10), Fin (- (1 / 12))]
   \<and> aggregate (dashboard_rows (read_positions_df three_lots) (yf_close 110)) =
       ([\<lparr>agg_symbol = ''AAPL'', agg_shares = Fin 10, agg_cost_basis = Fin 1100,
          agg_current_value = Fin 1100, agg_pnl_abs = Fin 0, agg_pnl_pct = Fin 0,
          allocation_pct = Fin (5 / 6)\<rparr>,
         \<lparr>agg_symbol = ''MSFT'', agg_shares = Fin 2, agg_cost_basis = Fin 600,
          agg_current_value = Fin 220, agg_pnl_abs = Fin (- 380), agg_pnl_pct = Fin (- (19 / 30)),
          allocation_pct = Fin (1 / 6)\<rparr>], Fin 1320, Fin 1700, Fin (- 380))"
proof (intro conjI ballI)
  show "distinct (map agg_symbol (fst (aggregate df)))"
    by (simp only: aggregate_symbols group_keys_distinct)
  show "sorted (map agg_symbol (fst (aggregate df)))"
    by (simp add: aggregate_symbols group_keys_def)
  show "set (map agg_symbol (fst (aggregate df))) = (\<lambda>r. symbol (pos r)) ` set df"
    by (simp only: aggregate_symbols group_keys_set)
  show "aggregate (dashboard_rows (read_positions_df two_lots) (yf_close 110)) =
       ([\<lparr>agg_symbol = ''AAPL'', agg_shares = Fin 10, agg_cost_basis = Fin 1100,
          agg_current_value = Fin 1100, agg_pnl_abs = Fin 0, agg_pnl_pct = Fin 0,
          allocation_pct = Fin 1\<rparr>], Fin 1100, Fin 1100, Fin 0)"
    by code_simp
  show "map pnl_pct (dashboard_rows (read_positions_df two_lots) (yf_close 110)) =
       [Fin (1 / 10), Fin (- (1 / 12))]"
    by code_simp
  show "aggregate (dashboard_rows (read_positions_df three_lots) (yf_close 110)) =
       ([\<lparr>agg_symbol = ''AAPL'', agg_shares = Fin 10, agg_cost_basis = Fin 1100,
          agg_current_value = Fin 1100, agg_pnl_abs = Fin 0, agg_pnl_pct = Fin 0,
          allocation_pct = Fin (5 / 6)\<rparr>,
         \<lparr>agg_symbol = ''MSFT'', agg_shares = Fin 2, agg_cost_basis = Fin 600,
          agg_current_value = Fin 220, agg_pnl_abs = Fin (- 380), agg_pnl_pct = Fin (- (19 / 30)),
          allocation_pct = Fin (1 / 6)\<rparr>], Fin 1320, Fin 1700, Fin (- 380))"
    by code_simp
next
  fix a assume "a \<in> set (fst (aggregate df))"
  then obtain k where a: "a = add_allocation (fst (snd (aggregate df)))
       (add_pnl_pct
         \<lparr>agg_symbol = k,
          agg_shares = col_sum (map (\<lambda>r. shares (pos r)) (group_of k df)),
          agg_cost_basis = col_sum (map cost_basis (group_of k df)),
          agg_current_value = col_sum (map current_value (group_of k df)),
          agg_pnl_abs = col_sum (map pnl_abs (group_of k df))\<rparr>)"
    by (subst (asm) aggregate_rows) auto
  show "agg_shares a =
      col_sum (map (\<lambda>r. shares (pos r)) (filter (\<lambda>r. symbol (pos r) = agg_symbol a) df))"
    by (simp add: a add_allocation_def add_pnl_pct_def group_of_def)
  show "agg_cost_basis a =
      col_sum (map cost_basis (filter (\<lambda>r. symbol (pos r) = agg_symbol a) df))"
    by (simp add: a add_allocation_def add_pnl_pct_def group_of_def)
  show "agg_current_value a =
      col_sum (map current_value (filter (\<lambda>r. symbol (pos r) = agg_symbol a) df))"
    by (simp add: a add_allocation_def add_pnl_pct_def group_of_def)
  show "agg_pnl_abs a =
      col_sum (map pnl_abs (filter (\<lambda>r. symbol (pos r) = agg_symbol a) df))"
    by (simp add: a add_allocation_def add_pnl_pct_def group_of_def)
  show p: "agg_pnl_pct a = fillna0 (fdiv (agg_pnl_abs a) (agg_cost_basis a))"
    by (simp add: a add_allocation_def add_pnl_pct_def)
  show "\<forall>p c. agg_pnl_abs a = Fin p \<and> agg_cost_basis a = Fin c \<and> c \<noteq> 0 \<longrightarrow>
             agg_pnl_pct a = Fin (p / c)"
    by (simp add: p fillna0_def)
qed

theorem aggregate_by_symbol_witness:
  "\<lparr>agg_symbol = ''MSFT'', agg_shares = Fin 2, agg_cost_basis = Fin 600,
     agg_current_value = Fin 220, agg_pnl_abs = Fin (- 380), agg_pnl_pct = Fin (- (19 / 30)),
     allocation_pct = Fin (1 / 6)\<rparr>
     \<in> set (fst (aggregate (dashboard_rows (read_positions_df three_lots) (yf_close 110))))
   \<and> map (\<lambda>r. (symbol (pos r), cost_basis r, pnl_abs r))
        (dashboard_rows (read_positions_df three_lots) (yf_close 110)) =
       [(''MSFT'', Fin 600, Fin (- 380)), (''AAPL'', Fin 500, Fin 50), (''AAPL'', Fin 600, Fin (- 50))]
   \<and> Fin 600 = col_sum (map cost_basis
        (filter (\<lambda>r. symbol (pos r) = ''MSFT'')
           (dashboard_rows (read_positions_df three_lots) (yf_close 110))))
   \<and> Fin (- 380) = col_sum (map pnl_abs
        (filter (\<lambda>r. symbol (pos r) = ''MSFT'')
           (dashboard_rows (read_positions_df three_lots) (yf_close 110))))
   \<and> Fin (- (19 / 30)) = fillna0 (fdiv (Fin (- 380)) (Fin 600))
   \<and> (- 380 :: real) / 600 = - (19 / 30)"
proof -
  let ?df = "dashboard_rows (read_positions_df three_lots) (yf_close 110)"
  let ?a = "\<lparr>agg_symbol = ''MSFT'', agg_shares = Fin 2, agg_cost_basis = Fin 600,
     agg_current_value = Fin 220, agg_pnl_abs = Fin (- 380), agg_pnl_pct = Fin (- (19 / 30)),
     allocation_pct = Fin (1 / 6)\<rparr>"
  note t = aggregate_by_symbol [of ?df]
  from t have m: "?a \<in> set (fst (aggregate ?df))" by simp
  with t have
    "agg_cost_basis ?a = col_sum (map cost_basis (filter (\<lambda>r. symbol (pos r) = agg_symbol ?a) ?df))"
    "agg_pnl_abs ?a = col_sum (map pnl_abs (filter (\<lambda>r. symbol (pos r) = agg_symbol ?a) ?df))"
    "agg_pnl_pct ?a = fillna0 (fdiv (agg_pnl_abs ?a) (agg_cost_basis ?a))"
    by blast+
  then have s:
    "Fin 600 = col_sum (map cost_basis (filter (\<lambda>r. symbol (pos r) = ''MSFT'') ?df))"
    "Fin (- 380) = col_sum (map pnl_abs (filter (\<lambda>r. symbol (pos r) = ''MSFT'') ?df))"
    "Fin (- (19 / 30)) = fillna0 (fdiv (Fin (- 380)) (Fin 600))"
    by simp_all
  have r: "map (\<lambda>r. (symbol (pos r), cost_basis r, pnl_abs r)) ?df =
       [(''MSFT'', Fin 600, Fin (- 380)), (''AAPL'', Fin 500, Fin 50), (''AAPL'', Fin 600, Fin (- 50))]"
    by code_simp
  have q: "(- 380 :: real) / 600 = - (19 / 30)" by simp
  from m s r q show ?thesis by blast
qed

end
